theory Spec2Isabelle
  imports Complex_Main
begin

section \<open>Numbers and strings of the source\<close>

text \<open>
  The source is TypeScript. A \<^verbatim>\<open>number\<close> is modelled as a \<^typ>\<open>real\<close>: arithmetic is
  exact, and the values a double has beside the reals (NaN, the infinities) are
  written out where the source can produce or test them: an optional field that is
  \<^verbatim>\<open>undefined\<close> and a \<^verbatim>\<open>parseFloat\<close> that returns NaN are \<open>None\<close>.
  Rounding of doubles is outside the model.
\<close>

text \<open>\<^verbatim>\<open>a || d\<close> on a number that may be absent, with a number as default: the left
  operand is falsy when it is undefined, NaN or 0.\<close>

definition or_default :: "real option \<Rightarrow> real \<Rightarrow> real" where
  "or_default a d = (case a of None \<Rightarrow> d | Some r \<Rightarrow> if r = 0 then d else r)"

text \<open>\<^verbatim>\<open>a || b\<close> where both operands may be absent.\<close>

definition or_num :: "real option \<Rightarrow> real option \<Rightarrow> real option" where
  "or_num a b = (case a of None \<Rightarrow> b | Some r \<Rightarrow> if r = 0 then b else Some r)"

text \<open>The same on strings: a string is falsy when it is undefined or empty.\<close>

definition or_str :: "string option \<Rightarrow> string option \<Rightarrow> string option" where
  "or_str a b = (case a of None \<Rightarrow> b | Some s \<Rightarrow> if s = [] then b else Some s)"

definition or_str_default :: "string option \<Rightarrow> string \<Rightarrow> string" where
  "or_str_default a d = (case a of None \<Rightarrow> d | Some s \<Rightarrow> if s = [] then d else s)"

text \<open>Decimal rendering of a natural number, as a template literal does it.\<close>

definition digit_char :: "nat \<Rightarrow> char" where
  "digit_char d = char_of (d + 48)"

fun decimal :: "nat \<Rightarrow> string" where
  "decimal n =
     (if n div 10 = 0 then [digit_char n]
      else decimal (n div 10) @ [digit_char (n mod 10)])"

definition Math_floor :: "real \<Rightarrow> real" where
  "Math_floor x = real_of_int \<lfloor>x\<rfloor>"

text \<open>\<^verbatim>\<open>Math.round\<close> rounds a half towards plus infinity.\<close>

definition Math_round :: "real \<Rightarrow> real" where
  "Math_round x = real_of_int \<lfloor>x + 1 / 2\<rfloor>"

section \<open>Data model\<close>

record DataPoint =
  pt_id :: string
  pt_lat :: real
  pt_lng :: real
  pt_name :: string
  pt_value :: real
  pt_moValue :: "real option"

record Polygon =
  pg_id :: string
  pg_coordinates :: "(real \<times> real) list"
  pg_name :: string

text \<open>A row handed over by the import: the columns \<^verbatim>\<open>handleExcelDataLoad\<close> reads.
  A column that the row does not have is \<open>None\<close>.\<close>

record Row =
  row_latitud :: "real option"
  row_lat :: "real option"
  row_latitude :: "real option"
  row_longitud :: "real option"
  row_lng :: "real option"
  row_longitude :: "real option"
  row_nombre :: "string option"
  row_name :: "string option"
  row_valor :: "real option"
  row_value :: "real option"

text \<open>The state of \<^verbatim>\<open>App\<close>: the shared data store.\<close>

record AppState =
  dataPoints :: "DataPoint list"
  polygons :: "Polygon list"
  excelData :: "Row list"

definition app_init :: AppState where
  "app_init = \<lparr>dataPoints = [], polygons = [], excelData = []\<rparr>"

text \<open>The state of \<^verbatim>\<open>MapComponent\<close>, one field for each \<^verbatim>\<open>useState\<close>.\<close>

record MapState =
  isDrawingPolygon :: bool
  isAddingPoint :: bool
  currentPolygonPoints :: "(real \<times> real) list"
  mapCenter :: "real \<times> real"
  zoom :: real
  isDragging :: bool
  lastMousePos :: "real \<times> real"
  showPointModal :: bool
  pendingPoint :: "(real \<times> real) option"
  pointName :: string
  pointMOValue :: string

definition map_init :: MapState where
  "map_init = \<lparr>isDrawingPolygon = False, isAddingPoint = False,
     currentPolygonPoints = [], mapCenter = (0, 0), zoom = 2, isDragging = False,
     lastMousePos = (0, 0), showPointModal = False, pendingPoint = None,
     pointName = [], pointMOValue = []\<rparr>"

text \<open>The bounding rectangle of the map element (\<^verbatim>\<open>getBoundingClientRect\<close>).\<close>

record Rect =
  rect_left :: real
  rect_top :: real
  rect_width :: real
  rect_height :: real

section \<open>The data store (App)\<close>

definition handleAddPolygon :: "Polygon \<Rightarrow> AppState \<Rightarrow> AppState" where
  "handleAddPolygon polygon s = s\<lparr>polygons := polygons s @ [polygon]\<rparr>"

definition handleAddPoint :: "DataPoint \<Rightarrow> AppState \<Rightarrow> AppState" where
  "handleAddPoint point s = s\<lparr>dataPoints := dataPoints s @ [point]\<rparr>"

text \<open>The point that \<^verbatim>\<open>handleExcelDataLoad\<close> builds from the row at \<open>index\<close>.
  \<open>rnd index\<close> is what \<^verbatim>\<open>Math.random()\<close> returns for that row.\<close>

definition row_lat_resolved :: "Row \<Rightarrow> real" where
  "row_lat_resolved row =
     or_default (or_num (or_num (row_latitud row) (row_lat row)) (row_latitude row)) 0"

definition row_lng_resolved :: "Row \<Rightarrow> real" where
  "row_lng_resolved row =
     or_default (or_num (or_num (row_longitud row) (row_lng row)) (row_longitude row)) 0"

definition row_to_point :: "(nat \<Rightarrow> real) \<Rightarrow> nat \<Rightarrow> Row \<Rightarrow> DataPoint" where
  "row_to_point rnd index row =
     \<lparr>pt_id = ''point-'' @ decimal index,
      pt_lat = row_lat_resolved row,
      pt_lng = row_lng_resolved row,
      pt_name = or_str_default (or_str (row_nombre row) (row_name row))
                  (''Punto '' @ decimal (index + 1)),
      pt_value = or_default (or_num (row_valor row) (row_value row)) (rnd index * 100),
      pt_moValue = None\<rparr>"

definition import_points :: "(nat \<Rightarrow> real) \<Rightarrow> Row list \<Rightarrow> DataPoint list" where
  "import_points rnd data =
     filter (\<lambda>point. pt_lat point \<noteq> 0 \<and> pt_lng point \<noteq> 0)
       (map (\<lambda>(row, index). row_to_point rnd index row) (zip data [0..<length data]))"

definition handleExcelDataLoad :: "(nat \<Rightarrow> real) \<Rightarrow> Row list \<Rightarrow> AppState \<Rightarrow> AppState" where
  "handleExcelDataLoad rnd data s =
     s\<lparr>excelData := data, dataPoints := import_points rnd data\<rparr>"

section \<open>The drawing session and the viewport (MapComponent)\<close>

text \<open>\<open>now\<close> is the value of \<^verbatim>\<open>Date.now()\<close>. The name is UTF-8, the accented letter
  taking two bytes.\<close>

definition finishPolygon :: "nat \<Rightarrow> MapState \<times> AppState \<Rightarrow> MapState \<times> AppState" where
  "finishPolygon now = (\<lambda>(m, a).
     (m\<lparr>currentPolygonPoints := [], isDrawingPolygon := False\<rparr>,
      if length (currentPolygonPoints m) \<ge> 3
      then handleAddPolygon
             \<lparr>pg_id = ''polygon-'' @ decimal now,
              pg_coordinates = currentPolygonPoints m,
              pg_name = ''Pol'' @ [char_of (195::nat), char_of (173::nat)] @ ''gono ''
                          @ decimal (length (polygons a) + 1)\<rparr> a
      else a))"




definition startAddingPoint :: "MapState \<Rightarrow> MapState" where
  "startAddingPoint m =
     m\<lparr>isAddingPoint := True, isDrawingPolygon := False, currentPolygonPoints := []\<rparr>"

definition cancelDrawing :: "MapState \<Rightarrow> MapState" where
  "cancelDrawing m =
     m\<lparr>isDrawingPolygon := False, isAddingPoint := False, currentPolygonPoints := []\<rparr>"

text \<open>\<open>parseFloat\<close> is the platform's; \<open>None\<close> is NaN.\<close>

definition handleSavePoint ::
  "(string \<Rightarrow> real option) \<Rightarrow> nat \<Rightarrow> MapState \<times> AppState \<Rightarrow> MapState \<times> AppState" where
  "handleSavePoint parseFloat now = (\<lambda>(m, a).
     case pendingPoint m of
       None \<Rightarrow> (m, a)
     | Some (plat, plng) \<Rightarrow>
         if pointName m = [] \<or> pointMOValue m = [] then (m, a)
         else
           (m\<lparr>showPointModal := False, pendingPoint := None, pointName := [],
              pointMOValue := [], isAddingPoint := False\<rparr>,
            handleAddPoint
              \<lparr>pt_id = ''manual-point-'' @ decimal now,
               pt_lat = plat, pt_lng = plng, pt_name = pointName m,
               pt_value = or_default (parseFloat (pointMOValue m)) 0,
               pt_moValue = Some (or_default (parseFloat (pointMOValue m)) 0)\<rparr> a))"

text \<open>The dialog's own cancel button only closes the dialog.\<close>

definition closePointModal :: "MapState \<Rightarrow> MapState" where
  "closePointModal m = m\<lparr>showPointModal := False\<rparr>"



text \<open>The mode of the drawing session, read off the two flags.\<close>

datatype Session = Idle | DrawingPolygon | AddingPoint

definition session :: "MapState \<Rightarrow> Session" where
  "session m = (if isDrawingPolygon m then DrawingPolygon
                else if isAddingPoint m then AddingPoint else Idle)"

subsection \<open>Projection\<close>

definition TILE_SIZE :: real where
  "TILE_SIZE = 256"

definition latLngToTile :: "real \<Rightarrow> real \<Rightarrow> real \<Rightarrow> real \<times> real \<times> real" where
  "latLngToTile lat lng z =
     (let latRad = lat * pi / 180;
          n = 2 powr z;
          x = Math_floor ((lng + 180) / 360 * n);
          y = Math_floor ((1 - arsinh (tan latRad) / pi) / 2 * n)
      in (x, y, z))"

text \<open>The result is the pair \<open>(lat, lng)\<close>.\<close>

definition tileToLatLng :: "real \<Rightarrow> real \<Rightarrow> real \<Rightarrow> real \<times> real" where
  "tileToLatLng x y z =
     (let n = 2 powr z;
          lng = x / n * 360 - 180;
          latRad = arctan (sinh (pi * (1 - 2 * y / n)));
          lat = latRad * 180 / pi
      in (lat, lng))"

definition tileZ_of :: "real \<Rightarrow> real" where
  "tileZ_of zm = max 1 (min 18 (Math_round (zm + 10)))"

text \<open>\<open>rect\<close> is \<open>None\<close> when \<^verbatim>\<open>mapRef.current\<close> is not set.\<close>

definition screenToLatLng :: "Rect option \<Rightarrow> MapState \<Rightarrow> real \<Rightarrow> real \<Rightarrow> real \<times> real" where
  "screenToLatLng r m screenX screenY =
     (case r of
        None \<Rightarrow> (0, 0)
      | Some rect \<Rightarrow>
          (let pixelX = (screenX - rect_left rect - rect_width rect / 2) / zoom m
                          + fst (mapCenter m);
               pixelY = (screenY - rect_top rect - rect_height rect / 2) / zoom m
                          + snd (mapCenter m);
               tileZ = tileZ_of (zoom m);
               scale = 2 powr tileZ;
               tileX = pixelX / TILE_SIZE + scale / 2;
               tileY = pixelY / TILE_SIZE + scale / 2
           in tileToLatLng tileX tileY tileZ))"

text \<open>The result is the pair \<open>(x, y)\<close>.\<close>

definition latLngToScreen :: "Rect option \<Rightarrow> MapState \<Rightarrow> real \<Rightarrow> real \<Rightarrow> real \<times> real" where
  "latLngToScreen r m lat lng =
     (case r of
        None \<Rightarrow> (0, 0)
      | Some rect \<Rightarrow>
          (let tileZ = tileZ_of (zoom m);
               tile = latLngToTile lat lng tileZ;
               scale = 2 powr tileZ;
               pixelX = (fst tile - scale / 2) * TILE_SIZE;
               pixelY = (fst (snd tile) - scale / 2) * TILE_SIZE;
               screenX = (pixelX - fst (mapCenter m)) * zoom m + rect_width rect / 2;
               screenY = (pixelY - snd (mapCenter m)) * zoom m + rect_height rect / 2
           in (screenX, screenY)))"

subsection \<open>Pointer events\<close>

definition handleMapClick :: "Rect option \<Rightarrow> real \<times> real \<Rightarrow> MapState \<Rightarrow> MapState" where
  "handleMapClick r e m =
     (if isDragging m then m
      else if isDrawingPolygon m then
        m\<lparr>currentPolygonPoints :=
             currentPolygonPoints m @ [screenToLatLng r m (fst e) (snd e)]\<rparr>
      else if isAddingPoint m then
        m\<lparr>pendingPoint := Some (screenToLatLng r m (fst e) (snd e)),
          showPointModal := True\<rparr>
      else m)"

definition handleMouseDown :: "real \<times> real \<Rightarrow> MapState \<Rightarrow> MapState" where
  "handleMouseDown e m =
     (if isDrawingPolygon m \<or> isAddingPoint m then m
      else m\<lparr>isDragging := True, lastMousePos := e\<rparr>)"

definition handleMouseMove :: "real \<times> real \<Rightarrow> MapState \<Rightarrow> MapState" where
  "handleMouseMove e m =
     (if \<not> isDragging m \<or> isDrawingPolygon m \<or> isAddingPoint m then m
      else
        (let deltaX = fst e - fst (lastMousePos m);
             deltaY = snd e - snd (lastMousePos m)
         in m\<lparr>mapCenter := (fst (mapCenter m) - deltaX / zoom m,
                             snd (mapCenter m) - deltaY / zoom m),
              lastMousePos := e\<rparr>))"

definition handleMouseUp :: "MapState \<Rightarrow> MapState" where
  "handleMouseUp m = m\<lparr>isDragging := False\<rparr>"

section \<open>Analytics (ResultsModal)\<close>

text \<open>The value every consumer reads: \<^verbatim>\<open>p.moValue || p.value\<close>.\<close>

definition moValue_or_value :: "DataPoint \<Rightarrow> real" where
  "moValue_or_value p = or_default (pt_moValue p) (pt_value p)"

record Stats =
  st_sum :: real
  st_avg :: real
  st_max :: real
  st_min :: real
  st_std :: real
  st_count :: nat

text \<open>\<open>None\<close> is \<^verbatim>\<open>null\<close>. The list of values has the length of \<open>dataPoints\<close>, so its
  empty case is the early return, and \<^verbatim>\<open>Math.max\<close> and \<^verbatim>\<open>Math.min\<close> see at least
  one argument.\<close>

definition calculateStats :: "DataPoint list \<Rightarrow> Stats option" where
  "calculateStats dps =
     (case map moValue_or_value dps of
        [] \<Rightarrow> None
      | v # vs \<Rightarrow>
          (let values = v # vs;
               sum = fold (\<lambda>b a. a + b) values 0;
               avg = sum / real (length values);
               mx = fold max vs v;
               mn = fold min vs v;
               std = sqrt (fold (\<lambda>n sq. sq + (n - avg) ^ 2) values 0 / real (length values))
           in Some \<lparr>st_sum = sum, st_avg = avg, st_max = mx, st_min = mn, st_std = std,
                    st_count = length values\<rparr>))"





text \<open>
  The loop of the containment test, \<^verbatim>\<open>for (i = 0, j = length - 1; i < length; j = i++)\<close>.
  \<^verbatim>\<open>&&\<close> evaluates its right operand, and with it the quotient, only when the left one
  holds. Beside the flag the function returns the divisors of the quotients it has
  evaluated, in the order of evaluation. For the empty list \<open>j\<close> starts at \<open>-1\<close> in the
  source and is never read.
\<close>

function rayLoop ::
  "(real \<times> real) list \<Rightarrow> real \<Rightarrow> real \<Rightarrow> nat \<Rightarrow> nat \<Rightarrow> bool \<Rightarrow> real list \<Rightarrow> bool \<times> real list" where
  "rayLoop cs x y i j inside ds =
     (if i < length cs then
        (let xi = fst (cs ! i); yi = snd (cs ! i);
             xj = fst (cs ! j); yj = snd (cs ! j)
         in if (yi > y) \<noteq> (yj > y)
            then rayLoop cs x y (i + 1) i
                   (if x < (xj - xi) * (y - yi) / (yj - yi) + xi then \<not> inside else inside)
                   (ds @ [yj - yi])
            else rayLoop cs x y (i + 1) i inside ds)
      else (inside, ds))"
  by pat_completeness auto
termination
  by (relation "measure (\<lambda>(cs, x, y, i, j, inside, ds). length cs - i)") auto

declare rayLoop.simps [simp del]

definition rayCast :: "Polygon \<Rightarrow> DataPoint \<Rightarrow> bool \<times> real list" where
  "rayCast polygon point =
     rayLoop (pg_coordinates polygon) (pt_lat point * 10) (pt_lng point * 10)
       0 (length (pg_coordinates polygon) - 1) False []"




section \<open>Notions used in the statements and proofs\<close>


text \<open>The value of \<open>j\<close> in the iteration with index \<open>i\<close>, for a list of length \<open>n\<close>.\<close>

definition prev_index :: "nat \<Rightarrow> nat \<Rightarrow> nat" where
  "prev_index n i = (if i = 0 then n - 1 else i - 1)"



subsection \<open>Concrete inputs\<close>

definition rect0 :: Rect where
  "rect0 = \<lparr>rect_left = 0, rect_top = 0, rect_width = 800, rect_height = 600\<rparr>"

definition rnd0 :: "nat \<Rightarrow> real" where
  "rnd0 i = 0"

text \<open>The row \<^verbatim>\<open>{lat: la, lng: lo}\<close>.\<close>

definition row_of :: "real \<Rightarrow> real \<Rightarrow> Row" where
  "row_of la lo = \<lparr>row_latitud = None, row_lat = Some la, row_latitude = None,
     row_longitud = None, row_lng = Some lo, row_longitude = None,
     row_nombre = None, row_name = None, row_valor = None, row_value = None\<rparr>"

definition square20 :: Polygon where
  "square20 = \<lparr>pg_id = ''polygon-0'',
     pg_coordinates = [(0, 0), (0, 20), (20, 20), (20, 0)], pg_name = ''P''\<rparr>"

text \<open>A point whose \<^verbatim>\<open>moValue\<close> is present and 0 while its \<^verbatim>\<open>value\<close> is 85.\<close>

definition zero_mo_point :: DataPoint where
  "zero_mo_point = \<lparr>pt_id = ''manual-point-0'', pt_lat = 1, pt_lng = 1, pt_name = ''A'',
     pt_value = 85, pt_moValue = Some 0\<rparr>"

definition example_points :: "DataPoint list" where
  "example_points =
     map (\<lambda>v. \<lparr>pt_id = ''point-0'', pt_lat = 1, pt_lng = 1, pt_name = ''A'',
               pt_value = v, pt_moValue = None\<rparr>) [80, 85, 90, 95]"

text \<open>Start adding a point, click the map, close the dialog with its own cancel button.\<close>

definition pending_state :: MapState where
  "pending_state =
     closePointModal (handleMapClick (Some rect0) (528, 300) (startAddingPoint map_init))"



section \<open>Projection: the round trip\<close>

lemma tileZ_of_2: "tileZ_of 2 = 12"
  by (simp add: tileZ_of_def Math_round_def)

lemma latLngToScreen_example:
  "latLngToScreen (Some rect0) map_init 0 (1 / 128) = (400, 300)"
  by (simp add: latLngToScreen_def latLngToTile_def map_init_def rect0_def tileZ_of_2
        Math_floor_def TILE_SIZE_def Let_def)

text \<open>Two clicks on the 800 by 600 element, in any state with the initial viewport.\<close>

lemma click_centre:
  "zoom m = 2 \<Longrightarrow> mapCenter m = (0, 0) \<Longrightarrow>
   screenToLatLng (Some rect0) m 400 300 = (0, 0)"
  by (simp add: screenToLatLng_def tileToLatLng_def rect0_def tileZ_of_2 TILE_SIZE_def
        Let_def)

lemma click_east:
  "zoom m = 2 \<Longrightarrow> mapCenter m = (0, 0) \<Longrightarrow>
   screenToLatLng (Some rect0) m 528 300 = (0, 45 / 2048)"
  by (simp add: screenToLatLng_def tileToLatLng_def rect0_def tileZ_of_2 TILE_SIZE_def
        Let_def)

lemma screenToLatLng_example:
  "screenToLatLng (Some rect0) map_init 400 300 = (0, 0)"
  by (simp add: click_centre map_init_def)

text \<open>
  What the round trip does to a longitude in general: \<^const>\<open>latLngToScreen\<close> goes through
  \<^const>\<open>latLngToTile\<close>, which takes the floor of the tile coordinate, and
  \<^const>\<open>screenToLatLng\<close> returns the longitude of that tile's western edge.
\<close>

lemma roundtrip_lng:
  assumes "zoom m \<noteq> 0" "rect_left rect = 0"
  shows "snd (screenToLatLng (Some rect) m (fst (latLngToScreen (Some rect) m lat lng)) sy)
       = Math_floor ((lng + 180) / 360 * 2 powr tileZ_of (zoom m))
           / 2 powr tileZ_of (zoom m) * 360 - 180"
  using assms
  by (simp add: screenToLatLng_def latLngToScreen_def latLngToTile_def tileToLatLng_def
        TILE_SIZE_def Let_def)
     (simp add: field_simps)

text \<open>
  C1. The claim: for every \<open>(lat, lng)\<close> in the viewport, with zoom and pan unchanged,
  \<open>screenToLatLng (latLngToScreen (lat, lng))\<close> is \<open>(lat, lng)\<close> within \<open>1e-6\<close> degrees.
  The code at the initial viewport (zoom 2, pan \<open>(0, 0)\<close>) on an 800 by 600 map element
  at the origin: the point \<open>(0, 1/128)\<close> is drawn at the centre \<open>(400, 300)\<close> of the
  element, and \<open>(400, 300)\<close> is mapped back to \<open>(0, 0)\<close>, which is \<open>1/128\<close> of a degree
  away in longitude.
\<close>

theorem roundtrip_snaps_to_tile_corner:
  "latLngToScreen (Some rect0) map_init 0 (1 / 128) = (400, 300) \<and>
   screenToLatLng (Some rect0) map_init
     (fst (latLngToScreen (Some rect0) map_init 0 (1 / 128)))
     (snd (latLngToScreen (Some rect0) map_init 0 (1 / 128))) = (0, 0) \<and>
   \<bar>snd (screenToLatLng (Some rect0) map_init
          (fst (latLngToScreen (Some rect0) map_init 0 (1 / 128)))
          (snd (latLngToScreen (Some rect0) map_init 0 (1 / 128)))) - 1 / 128\<bar>
     > 1 / 1000000"
  by (simp add: latLngToScreen_example screenToLatLng_example)

section \<open>The drawing session\<close>





lemma pending_state_eq:
  "pending_state = map_init\<lparr>isAddingPoint := True, pendingPoint := Some (0, 45 / 2048)\<rparr>"
  by (simp add: pending_state_def closePointModal_def handleMapClick_def click_east
        startAddingPoint_def map_init_def)

text \<open>
  C8. The claim: \<^const>\<open>cancelDrawing\<close> from either drawing state returns to \<open>Idle\<close>, empties
  the vertex list and discards the pending coordinate. The code in the state reached by
  starting to add a point, clicking the map at \<open>(528, 300)\<close> and closing the dialog:
  the session is \<open>AddingPoint\<close>; after \<^const>\<open>cancelDrawing\<close> it is \<open>Idle\<close> with no
  vertices, and the pending coordinate is still there.
\<close>

theorem cancelDrawing_keeps_pendingPoint:
  "session pending_state = AddingPoint \<and>
   session (cancelDrawing pending_state) = Idle \<and>
   currentPolygonPoints (cancelDrawing pending_state) = [] \<and>
   pendingPoint (cancelDrawing pending_state) = Some (0, 45 / 2048)"
  by (simp add: pending_state_eq session_def cancelDrawing_def map_init_def)

section \<open>The viewport\<close>



section \<open>The data store\<close>

lemma import_points_filter:
  "import_points rnd data =
     map (\<lambda>(row, index). row_to_point rnd index row)
       (filter (\<lambda>(row, index). row_lat_resolved row \<noteq> 0 \<and> row_lng_resolved row \<noteq> 0)
          (zip data [0..<length data]))"
  unfolding import_points_def filter_map
  by (rule arg_cong[where f = "map _"], rule filter_cong) (auto simp: row_to_point_def)

lemma row_of_resolved:
  "row_lat_resolved (row_of la lo) = la" "row_lng_resolved (row_of la lo) = lo"
  by (simp_all add: row_lat_resolved_def row_lng_resolved_def row_of_def or_default_def
        or_num_def)

text \<open>
  C3. As amended: the import keeps exactly the records whose latitude and longitude both
  resolve to a value other than 0, in their order, and discards every record where at
  least one of the two resolves to 0. Importing \<^verbatim>\<open>[{lat:0,lng:0}, {lat:40.7,lng:-74.0}]\<close>
  yields exactly one point, built from the second record.
\<close>

theorem import_keeps_both_nonzero:
  "import_points rnd data =
     map (\<lambda>(row, index). row_to_point rnd index row)
       (filter (\<lambda>(row, index). row_lat_resolved row \<noteq> 0 \<and> row_lng_resolved row \<noteq> 0)
          (zip data [0..<length data])) \<and>
   dataPoints (handleExcelDataLoad rnd data s) = import_points rnd data \<and>
   import_points rnd [row_of 0 0, row_of 40.7 (-74.0)]
     = [row_to_point rnd 1 (row_of 40.7 (-74.0))] \<and>
   length (import_points rnd [row_of 0 0, row_of 40.7 (-74.0)]) = 1"
proof -
  have "import_points rnd [row_of 0 0, row_of 40.7 (-74.0)]
          = [row_to_point rnd 1 (row_of 40.7 (-74.0))]"
    by (simp add: import_points_filter row_of_resolved upt_rec)
  then show ?thesis
    using import_points_filter[of rnd data] by (simp add: handleExcelDataLoad_def)
qed

text \<open>The claim as stated fails: a record with latitude 0 and longitude 5 has only one
  coordinate equal to 0, and is discarded.\<close>

theorem import_drops_single_zero_coordinate:
  "row_lat_resolved (row_of 0 5) = 0 \<and> row_lng_resolved (row_of 0 5) = 5 \<and>
   import_points rnd0 [row_of 0 5] = []"
  by (simp add: import_points_filter row_of_resolved)

text \<open>
  C9. As amended: \<^const>\<open>handleAddPoint\<close> and \<^const>\<open>handleAddPolygon\<close>, and with them
  \<^const>\<open>handleSavePoint\<close> and \<^const>\<open>finishPolygon\<close> that call them, only append to one
  list and leave the entries already present, and the other list, as they are. Loading a
  batch of imported records leaves the polygons as they are and replaces the list of
  points by the points retained from the batch: the points present before are gone.
\<close>

theorem store_appends_or_replaces:
  "dataPoints (handleAddPoint p s) = dataPoints s @ [p] \<and>
   polygons (handleAddPoint p s) = polygons s \<and>
   polygons (handleAddPolygon g s) = polygons s @ [g] \<and>
   dataPoints (handleAddPolygon g s) = dataPoints s \<and>
   (\<exists>ps. dataPoints (snd (handleSavePoint pf now (m, s))) = dataPoints s @ ps) \<and>
   polygons (snd (handleSavePoint pf now (m, s))) = polygons s \<and>
   (\<exists>gs. polygons (snd (finishPolygon now (m, s))) = polygons s @ gs) \<and>
   dataPoints (snd (finishPolygon now (m, s))) = dataPoints s \<and>
   dataPoints (handleExcelDataLoad rnd data s) = import_points rnd data \<and>
   polygons (handleExcelDataLoad rnd data s) = polygons s"
  by (simp add: handleAddPoint_def handleAddPolygon_def handleSavePoint_def
        finishPolygon_def handleExcelDataLoad_def split: option.split prod.split)

text \<open>The claim as stated fails: a store that holds one point holds none after an empty
  batch has been loaded.\<close>

theorem import_replaces_points:
  "dataPoints (handleAddPoint zero_mo_point app_init) = [zero_mo_point] \<and>
   dataPoints (handleExcelDataLoad rnd0 [] (handleAddPoint zero_mo_point app_init)) = []"
  by (simp add: handleAddPoint_def handleExcelDataLoad_def app_init_def import_points_def)

section \<open>Analytics\<close>

subsection \<open>Statistics\<close>

lemma fold_add: "fold (\<lambda>b a. a + b) xs (s::real) = s + sum_list xs"
  by (induction xs arbitrary: s) simp_all

lemma fold_add_sq:
  "fold (\<lambda>n sq. sq + (n - c) ^ 2) xs (s::real) = s + (\<Sum>n\<leftarrow>xs. (n - c) ^ 2)"
  by (induction xs arbitrary: s) simp_all

lemma calculateStats_Cons:
  assumes "map moValue_or_value dps = v # vs"
  shows "calculateStats dps =
     Some \<lparr>st_sum = sum_list (v # vs),
           st_avg = sum_list (v # vs) / real (length (v # vs)),
           st_max = Max (set (v # vs)),
           st_min = Min (set (v # vs)),
           st_std = sqrt ((\<Sum>n\<leftarrow>v # vs.
                             (n - sum_list (v # vs) / real (length (v # vs))) ^ 2)
                           / real (length (v # vs))),
           st_count = length dps\<rparr>"
proof -
  have len: "length dps = length (v # vs)"
    using assms by (metis length_map)
  show ?thesis
    unfolding calculateStats_def assms list.case Let_def fold_add fold_add_sq
      Max.set_eq_fold Min.set_eq_fold len
    by simp
qed

lemma example_values: "map moValue_or_value example_points = [80, 85, 90, 95]"
  by (simp add: example_points_def moValue_or_value_def or_default_def)

text \<open>
  C6. As amended: the statistics are \<open>None\<close> exactly when the point list is empty;
  otherwise they are the sum, the arithmetic mean, the maximum, the minimum, the
  population standard deviation (the square root of the mean of the squared deviations
  from the mean) and the count of the values \<^const>\<open>moValue_or_value\<close> reads. For the
  values \<open>[80, 85, 90, 95]\<close> the mean is 87.5, the maximum 95, the minimum 80 and the
  standard deviation \<open>sqrt ((7.5\<^sup>2 + 2.5\<^sup>2 + 2.5\<^sup>2 + 7.5\<^sup>2) / 4)\<close>.
\<close>

theorem calculateStats_spec:
  "(calculateStats dps = None \<longleftrightarrow> dps = []) \<and>
   (dps \<noteq> [] \<longrightarrow>
      calculateStats dps =
        Some \<lparr>st_sum = sum_list (map moValue_or_value dps),
              st_avg = sum_list (map moValue_or_value dps) / real (length dps),
              st_max = Max (set (map moValue_or_value dps)),
              st_min = Min (set (map moValue_or_value dps)),
              st_std = sqrt ((\<Sum>n\<leftarrow>map moValue_or_value dps.
                                (n - sum_list (map moValue_or_value dps) / real (length dps)) ^ 2)
                             / real (length dps)),
              st_count = length dps\<rparr>) \<and>
   (map moValue_or_value dps = [80, 85, 90, 95] \<longrightarrow>
      map_option st_avg (calculateStats dps) = Some 87.5 \<and>
      map_option st_max (calculateStats dps) = Some 95 \<and>
      map_option st_min (calculateStats dps) = Some 80 \<and>
      map_option st_std (calculateStats dps)
        = Some (sqrt ((7.5\<^sup>2 + 2.5\<^sup>2 + 2.5\<^sup>2 + 7.5\<^sup>2) / 4)))"
proof (intro conjI impI)
  show "calculateStats dps = None \<longleftrightarrow> dps = []"
    by (cases dps) (simp_all add: calculateStats_def Let_def)
next
  assume "dps \<noteq> []"
  then obtain v vs where vs: "map moValue_or_value dps = v # vs"
    by (cases dps) auto
  then have len: "length dps = length (v # vs)"
    by (metis length_map)
  show "calculateStats dps =
        Some \<lparr>st_sum = sum_list (map moValue_or_value dps),
              st_avg = sum_list (map moValue_or_value dps) / real (length dps),
              st_max = Max (set (map moValue_or_value dps)),
              st_min = Min (set (map moValue_or_value dps)),
              st_std = sqrt ((\<Sum>n\<leftarrow>map moValue_or_value dps.
                                (n - sum_list (map moValue_or_value dps) / real (length dps)) ^ 2)
                             / real (length dps)),
              st_count = length dps\<rparr>"
    unfolding vs len using calculateStats_Cons[OF vs] len by simp
next
  assume ex: "map moValue_or_value dps = [80, 85, 90, 95]"
  note s = calculateStats_Cons[OF ex]
  show "map_option st_avg (calculateStats dps) = Some 87.5" by (simp add: s)
  show "map_option st_max (calculateStats dps) = Some 95" by (simp add: s)
  show "map_option st_min (calculateStats dps) = Some 80" by (simp add: s)
  show "map_option st_std (calculateStats dps)
        = Some (sqrt ((7.5\<^sup>2 + 2.5\<^sup>2 + 2.5\<^sup>2 + 7.5\<^sup>2) / 4))"
    by (simp add: s power2_eq_square)
qed

theorem calculateStats_spec_witness:
  "example_points \<noteq> [] \<and> calculateStats example_points \<noteq> None \<and>
   map moValue_or_value example_points = [80, 85, 90, 95] \<and>
   map_option st_sum (calculateStats example_points) = Some 350 \<and>
   map_option st_avg (calculateStats example_points) = Some 87.5 \<and>
   map_option st_max (calculateStats example_points) = Some 95 \<and>
   map_option st_min (calculateStats example_points) = Some 80 \<and>
   map_option st_count (calculateStats example_points) = Some 4 \<and>
   map_option st_std (calculateStats example_points) = Some (sqrt (125 / 4))"
  using calculateStats_spec[of example_points] example_values
  by (simp add: power2_eq_square) (simp add: example_points_def)

text \<open>The claim as stated fails in its example: the deviation of 80 from the mean 87.5
  is 7.5, and the standard deviation of the code is not the one computed with 6.5.\<close>

theorem calculateStats_std_example_differs:
  "map moValue_or_value example_points = [80, 85, 90, 95] \<and>
   map_option st_std (calculateStats example_points)
     \<noteq> Some (sqrt ((6.5\<^sup>2 + 2.5\<^sup>2 + 2.5\<^sup>2 + 7.5\<^sup>2) / 4))"
  by (simp add: example_values calculateStats_Cons[OF example_values] power2_eq_square)

subsection \<open>The containment test\<close>

lemma rayLoop_done: "\<not> i < length cs \<Longrightarrow> rayLoop cs x y i j b ds = (b, ds)"
  by (simp add: rayLoop.simps[of cs x y i])

lemma rayLoop_guard:
  assumes "i < length cs" "(snd (cs ! i) > y) \<noteq> (snd (cs ! j) > y)"
  shows "rayLoop cs x y i j b ds =
     rayLoop cs x y (i + 1) i
       (if x < (fst (cs ! j) - fst (cs ! i)) * (y - snd (cs ! i))
                 / (snd (cs ! j) - snd (cs ! i)) + fst (cs ! i)
        then \<not> b else b)
       (ds @ [snd (cs ! j) - snd (cs ! i)])"
  using assms by (subst rayLoop.simps) (simp add: Let_def)

lemma rayLoop_skip:
  assumes "i < length cs" "\<not> ((snd (cs ! i) > y) \<noteq> (snd (cs ! j) > y))"
  shows "rayLoop cs x y i j b ds = rayLoop cs x y (i + 1) i b ds"
  using assms by (subst rayLoop.simps) (simp add: Let_def)

lemma prev_index_Suc: "i = prev_index n (i + 1)"
  by (simp add: prev_index_def)



text \<open>Every divisor the loop has recorded belongs to an edge whose ends are on opposite
  sides of \<open>y\<close>.\<close>

lemma rayLoop_snd:
  "d \<in> set (snd (rayLoop cs x y i j b ds)) \<Longrightarrow> j = prev_index (length cs) i \<Longrightarrow>
   d \<in> set ds \<or>
   (\<exists>k. i \<le> k \<and> k < length cs
        \<and> d = snd (cs ! prev_index (length cs) k) - snd (cs ! k)
        \<and> (snd (cs ! k) > y) \<noteq> (snd (cs ! prev_index (length cs) k) > y))"
proof (induction cs x y i j b ds rule: rayLoop.induct)
  case (1 cs x y i j inside ds)
  show ?case
  proof (cases "i < length cs")
    case False
    with "1.prems" show ?thesis by (simp add: rayLoop_done)
  next
    case True
    show ?thesis
    proof (cases "(snd (cs ! i) > y) \<noteq> (snd (cs ! j) > y)")
      case g: True
      from "1.prems"(1) have
        "d \<in> set (snd (rayLoop cs x y (i + 1) i
           (if x < (fst (cs ! j) - fst (cs ! i)) * (y - snd (cs ! i))
                     / (snd (cs ! j) - snd (cs ! i)) + fst (cs ! i)
            then \<not> inside else inside)
           (ds @ [snd (cs ! j) - snd (cs ! i)])))"
        by (simp add: rayLoop_guard[OF True g])
      from "1.IH"(1)[OF True refl refl refl refl g this prev_index_Suc]
      consider "d \<in> set ds" | "d = snd (cs ! j) - snd (cs ! i)"
        | k where "i + 1 \<le> k" "k < length cs"
            "d = snd (cs ! prev_index (length cs) k) - snd (cs ! k)"
            "(snd (cs ! k) > y) \<noteq> (snd (cs ! prev_index (length cs) k) > y)"
        by auto
      then show ?thesis
      proof cases
        case 1
        then show ?thesis by simp
      next
        case 2
        with True g "1.prems"(2) show ?thesis by (intro disjI2 exI[of _ i]) simp
      next
        case 3
        then show ?thesis by (intro disjI2 exI[of _ k]) simp
      qed
    next
      case g: False
      from "1.prems"(1) have "d \<in> set (snd (rayLoop cs x y (i + 1) i inside ds))"
        by (simp add: rayLoop_skip[OF True g])
      from "1.IH"(2)[OF True refl refl refl refl g this prev_index_Suc]
      show ?thesis by (metis Suc_eq_plus1 Suc_leD)
    qed
  qed
qed

lemma rayCast_example: "rayCast square20 zero_mo_point = (True, [-20, 20])"
  by (simp add: rayCast_def square20_def zero_mo_point_def rayLoop.simps Let_def)

text \<open>
  C10. Every quotient that the containment test evaluates has a divisor \<open>yj - yi\<close> that
  is not 0: it belongs to an edge of the polygon whose two ends are on opposite sides of
  the point's \<open>y\<close>, for every polygon and every point.
\<close>

theorem rayCast_divisor_nonzero:
  assumes "d \<in> set (snd (rayCast polygon point))"
  shows "d \<noteq> 0 \<and>
     (\<exists>k. k < length (pg_coordinates polygon)
        \<and> d = snd (pg_coordinates polygon ! prev_index (length (pg_coordinates polygon)) k)
                - snd (pg_coordinates polygon ! k)
        \<and> (snd (pg_coordinates polygon ! k) > pt_lng point * 10)
            \<noteq> (snd (pg_coordinates polygon ! prev_index (length (pg_coordinates polygon)) k)
                 > pt_lng point * 10))"
proof -
  from assms have "d \<in> set (snd (rayLoop (pg_coordinates polygon) (pt_lat point * 10)
      (pt_lng point * 10) 0 (prev_index (length (pg_coordinates polygon)) 0) False []))"
    by (simp add: rayCast_def prev_index_def)
  from rayLoop_snd[OF this refl] obtain k where k: "k < length (pg_coordinates polygon)"
    "d = snd (pg_coordinates polygon ! prev_index (length (pg_coordinates polygon)) k)
           - snd (pg_coordinates polygon ! k)"
    "(snd (pg_coordinates polygon ! k) > pt_lng point * 10)
       \<noteq> (snd (pg_coordinates polygon ! prev_index (length (pg_coordinates polygon)) k)
            > pt_lng point * 10)"
    by auto
  from k(2,3) have "d \<noteq> 0" by auto
  with k show ?thesis by blast
qed

theorem rayCast_divisor_nonzero_witness:
  "snd (rayCast square20 zero_mo_point) = [-20, 20] \<and> (20::real) \<noteq> 0"
  using rayCast_divisor_nonzero[of 20 square20 zero_mo_point]
  by (simp add: rayCast_example)

subsection \<open>Reversing the vertex order\<close>










subsection \<open>The value the consumers read\<close>


end
